theory Spec2Isabelle
  imports Complex_Main
begin

section \<open>Weight balancing and composite objectives of calculator.py\<close>

text \<open>
  The module \<^verbatim>\<open>calculator.py\<close> is embedded function by function. A raised exception
  is the left summand of a result, and an object that a method mutates is passed in and
  handed back. Collaborators of the cctbx library (the data-fit functor, the restraints
  managers, the shake of atomic sites) are function-valued fields of the objects that
  carry them.

  A float is the real number it stands for. In the class \<^verbatim>\<open>weights\<close>, where masks and
  branches are decided by comparing computed floats, every operation rounds its exact
  result to binary64 (\<open>fl\<close> below). The blend of the two targets in the class \<^verbatim>\<open>sites\<close>
  is taken over the exact values.
\<close>

subsection \<open>Exceptions\<close>

datatype error =
    RuntimeError string
  | ZeroDivisionError
  | TypeError
  | AssertionError
  | SystemExit int

definition bind_err :: "error + 'a \<Rightarrow> ('a \<Rightarrow> error + 'b) \<Rightarrow> error + 'b" where
  "bind_err m f = (case m of Inl e \<Rightarrow> Inl e | Inr v \<Rightarrow> f v)"

subsection \<open>Binary64 arithmetic\<close>

text \<open>Rounding of a real to the nearest integer, a tie going to the even one.\<close>

definition rne :: "real \<Rightarrow> int" where
  "rne y =
     (let f = \<lfloor>y\<rfloor> in
      if y - of_int f < 1 / 2 then f
      else if 1 / 2 < y - of_int f then f + 1
      else if even f then f else f + 1)"

text \<open>Rounding to the nearest number with a significand of 53 bits. The exponent is not
  bounded: infinities, NaN and subnormal numbers are not represented, so \<open>fl\<close> is the
  rounding of binary64 for results whose magnitude lies between the smallest normal and
  the largest finite double.\<close>

definition fl :: "real \<Rightarrow> real" where
  "fl x =
     (if x = 0 then 0
      else let e = \<lfloor>log 2 \<bar>x\<bar>\<rfloor> - 52
           in of_int (rne (x / 2 powr of_int e)) * 2 powr of_int e)"

definition fadd :: "real \<Rightarrow> real \<Rightarrow> real" where
  "fadd a b = fl (a + b)"

definition fsub :: "real \<Rightarrow> real \<Rightarrow> real" where
  "fsub a b = fl (a - b)"

definition fmul :: "real \<Rightarrow> real \<Rightarrow> real" where
  "fmul a b = fl (a * b)"

definition fdiv :: "real \<Rightarrow> real \<Rightarrow> real" where
  "fdiv a b = fl (a / b)"

definition fsqrt :: "real \<Rightarrow> real" where
  "fsqrt a = fl (sqrt a)"


subsection \<open>The flex arrays that the module uses\<close>

type_synonym vec3 = "real \<times> real \<times> real"

text \<open>\<^verbatim>\<open>flex.vec3_double(a)\<close> of a \<^verbatim>\<open>flex.double\<close>: consecutive triples; a size that is
  not a multiple of three is refused.\<close>

fun vec3_double :: "real list \<Rightarrow> error + vec3 list" where
  "vec3_double [] = Inr []"
| "vec3_double (a # b # c # rest) =
     (case vec3_double rest of Inl e \<Rightarrow> Inl e | Inr vs \<Rightarrow> Inr ((a, b, c) # vs))"
| "vec3_double _ = Inl (RuntimeError ''size not a multiple of 3'')"

text \<open>\<^verbatim>\<open>a.as_double()\<close> of a \<^verbatim>\<open>flex.vec3_double\<close>.\<close>

fun as_double :: "vec3 list \<Rightarrow> real list" where
  "as_double [] = []"
| "as_double ((a, b, c) # vs) = a # b # c # as_double vs"




text \<open>\<^verbatim>\<open>a.dot()\<close>: the squared length of each vector. \<^verbatim>\<open>flex.sqrt\<close>, the sum of an array
  taken from its first element on, \<^verbatim>\<open>flex.mean\<close> (an empty array has no mean: the library
  raises), the comparison of an array with a float, \<^verbatim>\<open>~sel\<close>, \<^verbatim>\<open>a.select(sel)\<close> and
  \<^verbatim>\<open>a.norm()\<close>. Each operation on floats rounds.\<close>

definition flex_dot :: "vec3 list \<Rightarrow> real list" where
  "flex_dot a = map (\<lambda>(p, q, r). fadd (fadd (fmul p p) (fmul q q)) (fmul r r)) a"

definition flex_sqrt :: "real list \<Rightarrow> real list" where
  "flex_sqrt a = map fsqrt a"

definition flex_sum :: "real list \<Rightarrow> real" where
  "flex_sum a = foldl fadd 0 a"

definition flex_mean :: "real list \<Rightarrow> error + real" where
  "flex_mean a =
     (if a = [] then Inl (RuntimeError ''mean() argument is an empty array'')
      else Inr (fdiv (flex_sum a) (real (length a))))"

definition flex_gt :: "real list \<Rightarrow> real \<Rightarrow> bool list" where
  "flex_gt a s = map (\<lambda>v. v > s) a"

definition flex_not :: "bool list \<Rightarrow> bool list" where
  "flex_not sel = map Not sel"

definition flex_select :: "'a list \<Rightarrow> bool list \<Rightarrow> 'a list" where
  "flex_select a sel = map fst (filter snd (zip a sel))"

definition flex_norm :: "vec3 list \<Rightarrow> real" where
  "flex_norm a = fsqrt (flex_sum (flex_dot a))"

subsection \<open>Structures, models and restraints managers\<close>

text \<open>The state of the two random generators that \<^verbatim>\<open>compute_weight\<close> seeds: Python's
  \<^verbatim>\<open>random\<close> and the one of flex. A generator seeded with \<open>n\<close> is in the state \<open>n\<close>.\<close>

record rng =
  py_random :: nat
  flex_random :: nat

text \<open>An \<^verbatim>\<open>xray_structure\<close>: the sites, the hydrogen flags, and the library's
  \<^verbatim>\<open>shake_sites_in_place\<close>, which draws from the flex generator.\<close>

record xray_structure =
  sites_cart :: "vec3 list"
  hd_selection :: "bool list"
  shake_sites_in_place :: "nat \<Rightarrow> real \<Rightarrow> vec3 list \<Rightarrow> nat \<times> vec3 list"

text \<open>An \<^verbatim>\<open>fmodel\<close>: its structure and what the library computes from it, the R factors
  and the target functor called with \<^verbatim>\<open>compute_gradients=True\<close> (target of the work set
  and packed site gradients).\<close>

record fmodel =
  xray_structure :: xray_structure
  r_work :: "xray_structure \<Rightarrow> real"
  r_free :: "xray_structure \<Rightarrow> real"
  target_functor :: "xray_structure \<Rightarrow> error + (real \<times> real list)"

text \<open>The restraints manager of a calculator (\<^verbatim>\<open>target_and_gradients\<close>), the cctbx
  geometry manager that \<^verbatim>\<open>get_bonds_rmsd\<close> asks for
  \<^verbatim>\<open>select(sel).energies_sites(sites_cart, compute_gradients=False).bond_deviations()\<close>,
  and the object whose attribute \<^verbatim>\<open>geometry\<close> holds it.\<close>

record restraints_manager =
  rm_target_and_gradients :: "vec3 list \<Rightarrow> error + (real \<times> vec3 list)"

record geometry =
  bond_deviations :: "bool list \<Rightarrow> vec3 list \<Rightarrow> error + (real \<times> real \<times> real)"

record geometry_rmsd_manager =
  geometry :: geometry

subsection \<open>get_bonds_rmsd\<close>

definition get_bonds_rmsd :: "geometry \<Rightarrow> xray_structure \<Rightarrow> error + real" where
  "get_bonds_rmsd rm xrs =
     (let hd_sel = hd_selection xrs in
      bind_err
        (bond_deviations rm (flex_not hd_sel)
           (flex_select (sites_cart xrs) (flex_not hd_sel)))
        (\<lambda>(b_min, b_max, b_ave). Inr b_ave))"

subsection \<open>The class weights\<close>

record weights =
  shake_sites :: bool
  restraints_weight :: "real option"
  data_weight :: "real option"
  restraints_weight_scale :: real
  weight_was_provided :: bool
  restraints_weight_scales :: "real list"
  r_frees :: "real list"
  r_works :: "real list"

definition weights_init :: "bool \<Rightarrow> real option \<Rightarrow> real option \<Rightarrow> real \<Rightarrow> weights" where
  "weights_init shake rw dw rws =
     \<lparr> shake_sites = shake,
       restraints_weight = rw,
       data_weight = dw,
       restraints_weight_scale = rws,
       weight_was_provided = (dw \<noteq> None),
       restraints_weight_scales = [rws],
       r_frees = [],
       r_works = [] \<rparr>"

definition scale_restraints_weight :: "weights \<Rightarrow> weights" where
  "scale_restraints_weight self =
     (if weight_was_provided self then self
      else self\<lparr>restraints_weight_scale := fmul (restraints_weight_scale self) 4\<rparr>)"

text \<open>Python's \<^verbatim>\<open>a / b\<close> on floats, and \<^verbatim>\<open>round(v, 4)\<close>: the exact value of the float
  is rounded to four decimals, a half going away from zero, and the float nearest to
  that decimal is returned.\<close>

definition py_div :: "real \<Rightarrow> real \<Rightarrow> error + real" where
  "py_div a b = (if b = 0 then Inl ZeroDivisionError else Inr (fdiv a b))"

definition py_round4 :: "real \<Rightarrow> real" where
  "py_round4 v = fl (sgn v * of_int \<lfloor>\<bar>v\<bar> * 10000 + 1 / 2\<rfloor> / 10000)"

text \<open>The four \<^verbatim>\<open>if\<close> statements between the \<^verbatim>\<open>####\<close> marks, run one after the other
  on the scale and the flag \<^verbatim>\<open>adjusted\<close>.\<close>

definition adjust_branches ::
  "real \<Rightarrow> real \<Rightarrow> real \<Rightarrow> real \<Rightarrow> real \<Rightarrow> real \<Rightarrow> error + (real \<times> bool)" where
  "adjust_branches rws cctbx_rm_bonds_rmsd max_bond_rmsd rf rw scale =
     bind_err
       (if cctbx_rm_bonds_rmsd > max_bond_rmsd then Inr (fmul rws scale, True)
        else Inr (rws, False))
       (\<lambda>(s1, adjusted1).
     bind_err
       (if \<not> adjusted1 \<and> rf < rw
        then bind_err (py_div s1 scale) (\<lambda>s. Inr (s, True))
        else Inr (s1, adjusted1))
       (\<lambda>(s2, adjusted2).
     bind_err
       (if \<not> adjusted2 \<and> cctbx_rm_bonds_rmsd < max_bond_rmsd \<and> rf > rw \<and>
           fmul \<bar>fsub rf rw\<bar> 100 < 5
        then bind_err (py_div s2 scale) (\<lambda>s. Inr (s, True))
        else Inr (s2, adjusted2))
       (\<lambda>(s3, adjusted3).
        if \<not> adjusted3 \<and> cctbx_rm_bonds_rmsd < max_bond_rmsd \<and> rf > rw \<and>
           fmul \<bar>fsub rf rw\<bar> 100 > 5
        then Inr (fmul s3 scale, True)
        else Inr (s3, adjusted3))))"

text \<open>The returned flag is \<^verbatim>\<open>None\<close>, \<^verbatim>\<open>True\<close> or \<^verbatim>\<open>False\<close>.\<close>

definition adjust_restraints_weight_scale ::
  "weights \<Rightarrow> fmodel \<Rightarrow> geometry_rmsd_manager \<Rightarrow> real \<Rightarrow> real \<Rightarrow>
     error + (bool option \<times> weights)" where
  "adjust_restraints_weight_scale self fm grm max_bond_rmsd scale =
     (if weight_was_provided self then Inr (None, self)
      else
        let rw = r_work fm (xray_structure fm);
            rf = r_free fm (xray_structure fm)
        in bind_err (get_bonds_rmsd (geometry grm) (xray_structure fm))
             (\<lambda>cctbx_rm_bonds_rmsd.
           bind_err
             (adjust_branches (restraints_weight_scale self) cctbx_rm_bonds_rmsd
                max_bond_rmsd rf rw scale)
             (\<lambda>(s, adjusted).
                Inr (Some adjusted,
                     self\<lparr>restraints_weight_scale := s,
                          r_frees := r_frees self @ [py_round4 rf],
                          r_works := r_works self @ [py_round4 rw]\<rparr>))))"

definition add_restraints_weight_scale_to_restraints_weight_scales :: "weights \<Rightarrow> weights" where
  "add_restraints_weight_scale_to_restraints_weight_scales self =
     (if weight_was_provided self then self
      else self\<lparr>restraints_weight_scales :=
                  restraints_weight_scales self @ [restraints_weight_scale self]\<rparr>)"

text \<open>The outlier mask of lines 98-99 and 102-103: the atoms whose gradient is longer
  than six times the mean length.\<close>

definition outlier_sel :: "vec3 list \<Rightarrow> error + bool list" where
  "outlier_sel g =
     (let g_d = flex_sqrt (flex_dot g) in
      bind_err (flex_mean g_d) (\<lambda>m. Inr (flex_gt g_d (fmul m 6))))"


text \<open>Lines 98-100 and 102-104 are the same three statements on \<^verbatim>\<open>gx\<close> and on
  \<^verbatim>\<open>gc\<close>: the norm of the array without the masked atoms.\<close>

definition filtered_norm :: "vec3 list \<Rightarrow> error + real" where
  "filtered_norm g =
     bind_err (outlier_sel g) (\<lambda>sel. Inr (flex_norm (flex_select g (flex_not sel))))"

text \<open>\<^verbatim>\<open>compute_weight\<close> works on a deep copy of the model, so the caller's \<open>fm\<close> is
  only read; the object and the generators are handed back. The norms of lines 95-96
  are overwritten before they are read.\<close>

definition compute_weight ::
  "weights \<Rightarrow> fmodel \<Rightarrow> restraints_manager \<Rightarrow> rng \<Rightarrow> error + (weights \<times> rng)" where
  "compute_weight self fm rm g =
     (if weight_was_provided self then Inr (self, g)
      else
        let g1 = g\<lparr>py_random := 1, flex_random := 1\<rparr>;
            fmodel_dc = fm;
            xrs = xray_structure fmodel_dc;
            (fr, shaken) =
              (if shake_sites self
               then shake_sites_in_place xrs (flex_random g1) (2 / 10) (sites_cart xrs)
               else (flex_random g1, sites_cart xrs));
            g2 = g1\<lparr>flex_random := fr\<rparr>;
            xrs = xrs\<lparr>sites_cart := shaken\<rparr>;
            fmodel_dc = fmodel_dc\<lparr>xray_structure := xrs\<rparr>
        in bind_err (target_functor fmodel_dc (xray_structure fmodel_dc))
             (\<lambda>(tgx, packed).
           bind_err (vec3_double packed)
             (\<lambda>gx.
           bind_err (rm_target_and_gradients rm (sites_cart xrs))
             (\<lambda>(tc, gc).
           bind_err (filtered_norm gx)
             (\<lambda>y.
           bind_err (filtered_norm gc)
             (\<lambda>x.
           Inr (self\<lparr>data_weight := Some (if y \<noteq> 0 then fdiv x y else 1)\<rparr>, g2)))))))"

subsection \<open>The class sites\<close>

text \<open>The attribute \<^verbatim>\<open>x\<close> starts as the flat \<^verbatim>\<open>flex.double\<close> of the sites and is a
  \<^verbatim>\<open>flex.vec3_double\<close> after every \<^verbatim>\<open>update\<close>.\<close>

datatype flex_x = Double "real list" | Vec3_double "vec3 list"

record sites =
  fmodel :: fmodel
  restraints_manager :: restraints_manager
  weights :: weights
  dump_gradients :: "string option"
  sites_x :: flex_x

definition sites_init ::
  "fmodel \<Rightarrow> restraints_manager \<Rightarrow> weights \<Rightarrow> string option \<Rightarrow> sites" where
  "sites_init fm rm w dump =
     \<lparr> fmodel = fm,
       restraints_manager = rm,
       weights = w,
       dump_gradients = dump,
       sites_x = Double (as_double (sites_cart (xray_structure fm))) \<rparr>"

definition sites_calculate_weight :: "sites \<Rightarrow> rng \<Rightarrow> error + (sites \<times> rng)" where
  "sites_calculate_weight self g =
     bind_err (compute_weight (weights self) (fmodel self) (restraints_manager self) g)
       (\<lambda>(w, g'). Inr (self\<lparr>weights := w\<rparr>, g'))"

definition update_restraints_weight_scale :: "sites \<Rightarrow> real \<Rightarrow> sites" where
  "update_restraints_weight_scale self rws =
     self\<lparr>weights := (weights self)\<lparr>restraints_weight_scale := rws\<rparr>\<rparr>"





subsection \<open>The class adp\<close>

record adp =
  adp_fmodel :: fmodel
  adp_restraints_manager :: restraints_manager
  adp_restraints_weight :: "real option"
  adp_data_weight :: "real option"
  adp_restraints_weight_scale :: "real option"
  adp_x :: "real list"

text \<open>The assignment after the \<^verbatim>\<open>raise\<close> is never reached.\<close>

definition adp_calculate_weight :: "adp \<Rightarrow> error + adp" where
  "adp_calculate_weight self = Inl (RuntimeError ''Not implemented.'')"

subsection \<open>Sequences of calls on a weights object\<close>

datatype weights_call =
    Compute_weight fmodel restraints_manager
  | Adjust_restraints_weight_scale fmodel geometry_rmsd_manager real real
  | Scale_restraints_weight

fun run_call :: "weights \<times> rng \<Rightarrow> weights_call \<Rightarrow> error + (weights \<times> rng)" where
  "run_call (w, g) (Compute_weight fm rm) = compute_weight w fm rm g"
| "run_call (w, g) (Adjust_restraints_weight_scale fm grm max_bond_rmsd scale) =
     bind_err (adjust_restraints_weight_scale w fm grm max_bond_rmsd scale)
       (\<lambda>(adjusted, w'). Inr (w', g))"
| "run_call (w, g) Scale_restraints_weight = Inr (scale_restraints_weight w, g)"

fun run_calls :: "weights \<times> rng \<Rightarrow> weights_call list \<Rightarrow> error + (weights \<times> rng)" where
  "run_calls s [] = Inr s"
| "run_calls s (c # cs) =
     (case run_call s c of Inl e \<Rightarrow> Inl e | Inr s' \<Rightarrow> run_calls s' cs)"

subsection \<open>Concrete inputs\<close>

text \<open>A model of one atom that is not a hydrogen: the shake moves every site along
  the first axis and advances the generator, the data gradient is one unit vector, and
  the R factors are equal.\<close>

definition xrs0 :: xray_structure where
  "xrs0 = \<lparr> sites_cart = [(0, 0, 0)], hd_selection = [False],
            shake_sites_in_place =
              (\<lambda>s d v. (s + 1, map (\<lambda>(p, q, r). (p + d, q, r)) v)) \<rparr>"

definition fm0 :: fmodel where
  "fm0 = \<lparr> xray_structure = xrs0,
           r_work = (\<lambda>_. 2 / 10), r_free = (\<lambda>_. 2 / 10),
           target_functor = (\<lambda>_. Inr (3, [1, 0, 0])) \<rparr>"

text \<open>A restraints manager without restraints (target and every gradient zero), one
  with a gradient, and a geometry manager that reports no bond deviation where no atom
  is selected.\<close>

definition rm0 :: restraints_manager where
  "rm0 = \<lparr> rm_target_and_gradients = (\<lambda>sc. Inr (0, map (\<lambda>_. (0, 0, 0)) sc)) \<rparr>"

definition rm1 :: restraints_manager where
  "rm1 = \<lparr> rm_target_and_gradients = (\<lambda>sc. Inr (7, map (\<lambda>_. (0, 2, 0)) sc)) \<rparr>"

definition geo0 :: geometry where
  "geo0 = \<lparr> bond_deviations =
             (\<lambda>sel sc. if sc = [] then Inr (0, 0, 0) else Inr (0, 2 / 100, 1 / 100)) \<rparr>"

text \<open>The same model with the R factors 0.2 and 0.25 as floats.\<close>

definition fm_gap :: fmodel where
  "fm_gap = fm0\<lparr>r_work := (\<lambda>_. fl (2 / 10)), r_free := (\<lambda>_. 1 / 4)\<rparr>"

definition grm0 :: geometry_rmsd_manager where
  "grm0 = \<lparr> geometry = geo0 \<rparr>"

definition g0 :: rng where
  "g0 = \<lparr> py_random = 7, flex_random = 9 \<rparr>"

text \<open>A structure of one hydrogen, a weights object with a data weight given by the
  user, and one without.\<close>

definition xrs_h :: xray_structure where
  "xrs_h = xrs0\<lparr>hd_selection := [True]\<rparr>"

definition w_provided :: weights where
  "w_provided = weights_init True (Some 1) (Some 5) 1"

definition w_free :: weights where
  "w_free = weights_init True (Some 1) None 1"












section \<open>Properties\<close>

lemma bind_err_Inr [simp]: "bind_err (Inr v) f = f v"
  by (simp add: bind_err_def)

lemma bind_err_Inl [simp]: "bind_err (Inl e) f = Inl e"
  by (simp add: bind_err_def)

subsection \<open>Rounding\<close>

lemma fl_zero [simp]: "fl 0 = 0"
  by (simp add: fl_def)

lemma rne_of_int [simp]: "rne (of_int n) = n"
  by (simp add: rne_def)

lemma rne_numeral [simp]: "rne (numeral w) = numeral w"
  using rne_of_int [of "numeral w"] by simp

lemma rne_eqI: "of_int n - 1 / 2 < y \<Longrightarrow> y < of_int n + 1 / 2 \<Longrightarrow> rne y = n"
proof -
  assume a: "of_int n - 1 / 2 < y" and b: "y < of_int n + 1 / 2"
  show ?thesis
  proof (cases "y < of_int n")
    case True
    then have "\<lfloor>y\<rfloor> = n - 1"
      using a by (intro floor_unique) auto
    then show ?thesis
      using a True by (simp add: rne_def)
  next
    case False
    then have "\<lfloor>y\<rfloor> = n"
      using b by (intro floor_unique) auto
    then show ?thesis
      using b False by (simp add: rne_def)
  qed
qed



lemma two_powr_shift: "(2::real) powr of_int (a - int k) * 2 ^ k = 2 powr of_int a"
proof -
  have "(2::real) ^ k = 2 powr of_int (int k)"
    by (simp add: powr_realpow)
  then have "(2::real) powr of_int (a - int k) * 2 ^ k =
             2 powr (of_int (a - int k) + of_int (int k))"
    by (simp only: powr_add)
  then show ?thesis
    by simp
qed

text \<open>The value of \<open>fl\<close> at a number whose significand, scaled to 53 bits, rounds to \<open>n\<close>.\<close>

lemma fl_eqI:
  assumes "2 ^ 52 \<le> \<bar>x\<bar> * 2 ^ k" and "\<bar>x\<bar> * 2 ^ k < 2 ^ 53" and "rne (x * 2 ^ k) = n"
  shows "fl x = of_int n / 2 ^ k"
proof -
  have nz: "x \<noteq> 0"
    using assms(1) by auto
  have lo: "(2::real) powr of_int (52 - int k) * 2 ^ k = 2 ^ 52"
    by (simp only: two_powr_shift) (simp add: powr_realpow [of 2 52, simplified])
  have hi: "(2::real) powr (of_int (52 - int k) + 1) * 2 ^ k = 2 ^ 53"
  proof -
    have "(2::real) powr (of_int (52 - int k) + 1) = 2 powr of_int (53 - int k)"
      by (simp add: algebra_simps)
    then show ?thesis
      by (simp only: two_powr_shift) (simp add: powr_realpow [of 2 53, simplified])
  qed
  have pos: "(0::real) < 2 ^ k"
    by simp
  have "\<lfloor>log 2 \<bar>x\<bar>\<rfloor> = 52 - int k"
  proof -
    have "2 powr of_int (52 - int k) * 2 ^ k \<le> \<bar>x\<bar> * 2 ^ k"
      using assms(1) by (simp only: lo)
    then have a: "2 powr of_int (52 - int k) \<le> \<bar>x\<bar>"
      using pos by (simp only: mult_le_cancel_right_pos)
    have "\<bar>x\<bar> * 2 ^ k < 2 powr (of_int (52 - int k) + 1) * 2 ^ k"
      using assms(2) by (simp only: hi)
    then have b: "\<bar>x\<bar> < 2 powr (of_int (52 - int k) + 1)"
      using pos by (simp only: mult_less_cancel_right_pos)
    from a b nz show ?thesis
      by (subst floor_log_eq_powr_iff) simp_all
  qed
  then have e: "\<lfloor>log 2 \<bar>x\<bar>\<rfloor> - 52 = - int k"
    by simp
  have pe: "(2::real) powr of_int (- int k) = 1 / 2 ^ k"
    using two_powr_shift [of 0 k] by (simp add: field_simps)
  have "fl x = of_int (rne (x / (1 / 2 ^ k))) * (1 / 2 ^ k)"
    using nz by (simp add: fl_def e pe Let_def del: of_int_minus)
  then show ?thesis
    using assms(3) by simp
qed

lemma fl_nearI:
  assumes "2 ^ 52 \<le> \<bar>x\<bar> * 2 ^ k" and "\<bar>x\<bar> * 2 ^ k < 2 ^ 53"
    and "of_int n - 1 / 2 < x * 2 ^ k" and "x * 2 ^ k < of_int n + 1 / 2"
  shows "fl x = of_int n / 2 ^ k"
  using assms(1,2) rne_eqI [OF assms(3,4)] by (rule fl_eqI)

lemma fl_one [simp]: "fl 1 = 1"
  using fl_eqI [of 1 52 "2 ^ 52"] by simp

lemma fl_two [simp]: "fl 2 = 2"
  using fl_eqI [of 2 51 "2 ^ 52"] by simp

lemma fl_four [simp]: "fl 4 = 4"
  using fl_eqI [of 4 50 "2 ^ 52"] by simp

lemma fl_six [simp]: "fl 6 = 6"
  using fl_eqI [of 6 50 "6 * 2 ^ 50"] by simp

lemma fl_twelve [simp]: "fl 12 = 12"
  using fl_eqI [of 12 49 "12 * 2 ^ 49"] by simp

lemma fl_half [simp]: "fl (1 / 2) = 1 / 2"
  using fl_eqI [of "1 / 2" 53 "2 ^ 52"] by simp

text \<open>
  C9. \<^verbatim>\<open>adp.calculate_weight\<close> raises on every calculator: the call never returns a
  calculator, so no data weight is assigned.
\<close>

theorem adp_calculate_weight_raises:
  "adp_calculate_weight self = Inl (RuntimeError ''Not implemented.'') \<and>
   (\<nexists>self'. adp_calculate_weight self = Inr self')"
  by (simp add: adp_calculate_weight_def)

subsection \<open>A weights object with a data weight given by the user\<close>

lemma run_call_provided: "weight_was_provided w \<Longrightarrow> run_call (w, g) c = Inr (w, g)"
  by (cases c)
    (simp_all add: compute_weight_def adjust_restraints_weight_scale_def
      scale_restraints_weight_def)

text \<open>
  C4. On an object whose \<^verbatim>\<open>weight_was_provided\<close> is true, every sequence of calls of
  \<^verbatim>\<open>compute_weight\<close>, \<^verbatim>\<open>adjust_restraints_weight_scale\<close> and
  \<^verbatim>\<open>scale_restraints_weight\<close>, of any length and in any order, ends without an
  exception and leaves the whole object (and the random generators) as it was.
\<close>

theorem frozen_weights_unchanged:
  "weight_was_provided w \<Longrightarrow> run_calls (w, g) cs = Inr (w, g)"
  by (induction cs) (simp_all add: run_call_provided)

theorem frozen_weights_unchanged_witness:
  "weight_was_provided w_provided \<and>
   run_calls (w_provided, g0)
     [Scale_restraints_weight, Compute_weight fm0 rm1,
      Adjust_restraints_weight_scale fm0 grm0 (3 / 100) 2, Scale_restraints_weight]
    = Inr (w_provided, g0)"
  using frozen_weights_unchanged [of w_provided g0
     "[Scale_restraints_weight, Compute_weight fm0 rm1,
      Adjust_restraints_weight_scale fm0 grm0 (3 / 100) 2, Scale_restraints_weight]"]
  by (simp add: w_provided_def weights_init_def)

lemma get_bonds_rmsd_xrs0: "get_bonds_rmsd geo0 xrs0 = Inr (1 / 100)"
  by (simp add: get_bonds_rmsd_def geo0_def xrs0_def flex_not_def flex_select_def)

text \<open>
  C10. With \<^verbatim>\<open>weight_was_provided\<close> true, \<^verbatim>\<open>adjust_restraints_weight_scale\<close> returns
  \<^verbatim>\<open>None\<close> and the object as it was, so nothing is appended to \<^verbatim>\<open>r_frees\<close> and
  \<^verbatim>\<open>r_works\<close>. With it false, a call that returns gives \<^verbatim>\<open>True\<close> or \<^verbatim>\<open>False\<close>, never
  \<^verbatim>\<open>None\<close>, and has appended one entry to each history.
\<close>

theorem adjust_frozen_returns_None:
  "(weight_was_provided self \<longrightarrow>
      adjust_restraints_weight_scale self fm grm max_bond_rmsd scale = Inr (None, self)) \<and>
   (\<not> weight_was_provided self \<longrightarrow>
      (\<forall>flag w'.
         adjust_restraints_weight_scale self fm grm max_bond_rmsd scale = Inr (flag, w') \<longrightarrow>
         (flag = Some True \<or> flag = Some False) \<and>
         length (r_frees w') = Suc (length (r_frees self)) \<and>
         length (r_works w') = Suc (length (r_works self))))"
  by (auto simp: adjust_restraints_weight_scale_def bind_err_def Let_def
           split: sum.splits prod.splits)

theorem adjust_frozen_returns_None_witness:
  "weight_was_provided w_provided \<and>
   adjust_restraints_weight_scale w_provided fm0 grm0 (3 / 100) 2 = Inr (None, w_provided) \<and>
   \<not> weight_was_provided w_free \<and>
   (\<exists>w'. adjust_restraints_weight_scale w_free fm0 grm0 (3 / 100) 2 = Inr (Some False, w') \<and>
         length (r_frees w') = 1 \<and> length (r_works w') = 1)"
  using adjust_frozen_returns_None [of w_provided fm0 grm0 "3 / 100" 2]
    adjust_frozen_returns_None [of w_free fm0 grm0 "3 / 100" 2]
  by (simp add: adjust_restraints_weight_scale_def get_bonds_rmsd_xrs0 adjust_branches_def
      w_free_def w_provided_def weights_init_def fm0_def grm0_def Let_def)

text \<open>
  C5, at a concrete calculator. The weights object was built with a data weight, so it
  is frozen, and its scale is 1; \<^verbatim>\<open>sites.update_restraints_weight_scale\<close> assigns the
  field without asking \<^verbatim>\<open>weight_was_provided\<close>, and the scale is 2 afterwards.
\<close>

theorem frozen_scale_overwritten:
  "weight_was_provided (weights (sites_init fm0 rm1 w_provided None)) \<and>
   restraints_weight_scale (weights (sites_init fm0 rm1 w_provided None)) = 1 \<and>
   restraints_weight_scale
     (weights (update_restraints_weight_scale (sites_init fm0 rm1 w_provided None) 2)) = 2"
  by (simp add: sites_init_def update_restraints_weight_scale_def w_provided_def
      weights_init_def)

subsection \<open>get_bonds_rmsd on a structure of hydrogens only\<close>

text \<open>
  C8 as it is stated fails. The only atom of \<open>xrs_h\<close> is a hydrogen, so the selection
  passed on is empty; the geometry manager answers with a zero deviation and
  \<^verbatim>\<open>get_bonds_rmsd\<close> returns it.
\<close>

theorem empty_selection_counterexample:
  "flex_select (sites_cart xrs_h) (flex_not (hd_selection xrs_h)) = [] \<and>
   get_bonds_rmsd geo0 xrs_h = Inr 0"
  by (simp add: get_bonds_rmsd_def geo0_def xrs_h_def xrs0_def flex_not_def flex_select_def)

text \<open>
  C8, amended. \<^verbatim>\<open>get_bonds_rmsd\<close> has no check of its own: when no atom is left after
  the hydrogens are taken out, it hands the empty selection to the geometry manager and
  returns the third component of that manager's answer, or fails with that manager's
  exception.
\<close>

theorem get_bonds_rmsd_empty_selection:
  "flex_select (sites_cart xrs) (flex_not (hd_selection xrs)) = [] \<Longrightarrow>
   get_bonds_rmsd rm xrs =
     (case bond_deviations rm (flex_not (hd_selection xrs)) [] of
        Inl e \<Rightarrow> Inl e | Inr (b_min, b_max, b_ave) \<Rightarrow> Inr b_ave)"
  by (simp add: get_bonds_rmsd_def bind_err_def split: sum.splits)

theorem get_bonds_rmsd_empty_selection_witness:
  "flex_select (sites_cart xrs_h) (flex_not (hd_selection xrs_h)) = [] \<and>
   bond_deviations geo0 (flex_not (hd_selection xrs_h)) [] = Inr (0, 0, 0) \<and>
   get_bonds_rmsd geo0 xrs_h = Inr 0"
  using get_bonds_rmsd_empty_selection [of xrs_h geo0]
  by (simp add: geo0_def xrs_h_def xrs0_def flex_not_def flex_select_def)

subsection \<open>The composite target of the sites calculator\<close>






subsection \<open>The branches of adjust_restraints_weight_scale\<close>

text \<open>
  C3 as it is stated fails. With equal R factors and a bond RMSD of 0.01 under the limit
  of 0.03, none of the four conditions holds: the flag is \<^verbatim>\<open>False\<close> and the scale is
  the one before the call.
\<close>

theorem no_adjustment_counterexample:
  "\<not> weight_was_provided w_free \<and>
   (case adjust_restraints_weight_scale w_free fm0 grm0 (3 / 100) 2 of
      Inl e \<Rightarrow> False
    | Inr (flag, w') \<Rightarrow> flag = Some False \<and>
        restraints_weight_scale w' = restraints_weight_scale w_free)"
  by (simp add: adjust_restraints_weight_scale_def get_bonds_rmsd_xrs0 adjust_branches_def
      w_free_def weights_init_def fm0_def grm0_def Let_def)

lemma fl_two_tenths: "fl (2 / 10) = 7205759403792794 / 2 ^ 55"
  using fl_nearI [of "2 / 10" 55 7205759403792794] by simp

lemma gap_difference: "fsub (1 / 4) (7205759403792794 / 2 ^ 55) = 7205759403792792 / 2 ^ 57"
  unfolding fsub_def
  using fl_nearI [of "1 / 4 - 7205759403792794 / 2 ^ 55" 57 7205759403792792] by simp

lemma gap_percent: "fmul \<bar>7205759403792792 / 2 ^ 57\<bar> 100 = 5629499534213119 / 2 ^ 50"
  unfolding fmul_def
  using fl_nearI [of "\<bar>7205759403792792 / 2 ^ 57\<bar> * 100" 50 5629499534213119] by simp

lemma gap_below_five: "fmul \<bar>fsub (1 / 4) (fl (2 / 10))\<bar> 100 < 5"
  unfolding fl_two_tenths gap_difference gap_percent by simp

lemma r_work_below_r_free: "fl (2 / 10) < 1 / 4"
  unfolding fl_two_tenths by simp

text \<open>
  C3, amended. With \<^verbatim>\<open>weight_was_provided\<close> false, a bond RMSD \<open>b\<close> from the geometry
  manager and a scale factor other than zero, the call returns a boolean flag, and the
  four branches divide the inputs as follows, \<open>gap\<close> being the float
  \<^verbatim>\<open>abs(rf-rw)*100.\<close>: the scale is multiplied when \<open>b\<close> exceeds the limit; divided when
  \<open>b\<close> is within the limit and \<open>r_free < r_work\<close>; divided when \<open>b\<close> is under the limit,
  \<open>r_free > r_work\<close> and \<open>gap < 5\<close>; multiplied when \<open>b\<close> is under the limit,
  \<open>r_free > r_work\<close> and \<open>gap > 5\<close>. In each of these cases exactly that one branch fires
  and the flag is true. In every other case, which is \<open>b\<close> within the limit and
  \<open>r_free \<ge> r_work\<close> with \<open>b\<close> equal to the limit or the R factors equal or \<open>gap = 5\<close>,
  no branch fires: the flag is false and the scale is unchanged.
\<close>

theorem adjust_outcomes:
  assumes "\<not> weight_was_provided self"
    and "get_bonds_rmsd (geometry grm) (xray_structure fm) = Inr b"
    and "scale \<noteq> 0"
    and "rw = r_work fm (xray_structure fm)" and "rf = r_free fm (xray_structure fm)"
    and "gap = fmul \<bar>fsub rf rw\<bar> 100"
    and "s = restraints_weight_scale self"
  shows "\<exists>adjusted w'.
     adjust_restraints_weight_scale self fm grm max_bond_rmsd scale = Inr (Some adjusted, w') \<and>
     (adjusted \<longrightarrow> restraints_weight_scale w' = fmul s scale \<or>
                    restraints_weight_scale w' = fdiv s scale) \<and>
     (\<not> adjusted \<longrightarrow> restraints_weight_scale w' = s) \<and>
     (b > max_bond_rmsd \<longrightarrow> adjusted \<and> restraints_weight_scale w' = fmul s scale) \<and>
     (b \<le> max_bond_rmsd \<and> rf < rw \<longrightarrow>
        adjusted \<and> restraints_weight_scale w' = fdiv s scale) \<and>
     (b < max_bond_rmsd \<and> rf > rw \<and> gap < 5 \<longrightarrow>
        adjusted \<and> restraints_weight_scale w' = fdiv s scale) \<and>
     (b < max_bond_rmsd \<and> rf > rw \<and> gap > 5 \<longrightarrow>
        adjusted \<and> restraints_weight_scale w' = fmul s scale) \<and>
     (b \<le> max_bond_rmsd \<and> rf \<ge> rw \<and> (b = max_bond_rmsd \<or> rf = rw \<or> gap = 5) \<longrightarrow>
        \<not> adjusted \<and> restraints_weight_scale w' = s)"
  using assms
  by (auto simp: adjust_restraints_weight_scale_def adjust_branches_def py_div_def Let_def)

theorem adjust_outcomes_witness:
  "\<not> weight_was_provided w_free \<and>
   get_bonds_rmsd (geometry grm0) (xray_structure fm0) = Inr (1 / 100) \<and> (2::real) \<noteq> 0 \<and>
   (\<exists>w'. adjust_restraints_weight_scale w_free fm0 grm0 (3 / 100) 2 = Inr (Some False, w') \<and>
         restraints_weight_scale w' = 1) \<and>
   r_work fm_gap (xray_structure fm_gap) < r_free fm_gap (xray_structure fm_gap) \<and>
   fmul \<bar>fsub (r_free fm_gap (xray_structure fm_gap))
              (r_work fm_gap (xray_structure fm_gap))\<bar> 100 < 5 \<and>
   (\<exists>w'. adjust_restraints_weight_scale w_free fm_gap grm0 (3 / 100) 2 = Inr (Some True, w') \<and>
         restraints_weight_scale w' = 1 / 2)"
proof -
  have active: "\<not> weight_was_provided w_free"
    by (simp add: w_free_def weights_init_def)
  have rmsd: "get_bonds_rmsd (geometry grm0) (xray_structure fm0) = Inr (1 / 100)"
    by (simp add: fm0_def grm0_def get_bonds_rmsd_xrs0)
  have rmsd': "get_bonds_rmsd (geometry grm0) (xray_structure fm_gap) = Inr (1 / 100)"
    by (simp add: fm_gap_def fm0_def grm0_def get_bonds_rmsd_xrs0)
  have factor: "(2::real) \<noteq> 0"
    by simp
  have s: "1 = restraints_weight_scale w_free"
    by (simp add: w_free_def weights_init_def)
  have rw: "2 / 10 = r_work fm0 (xray_structure fm0)"
    and rf: "2 / 10 = r_free fm0 (xray_structure fm0)"
    by (simp_all add: fm0_def)
  have rw': "fl (2 / 10) = r_work fm_gap (xray_structure fm_gap)"
    and rf': "1 / 4 = r_free fm_gap (xray_structure fm_gap)"
    by (simp_all add: fm_gap_def)
  from adjust_outcomes [OF active rmsd factor rw rf refl s, of "3 / 100"]
  obtain adjusted w' where
    res: "adjust_restraints_weight_scale w_free fm0 grm0 (3 / 100) 2 = Inr (Some adjusted, w')"
    and none: "(1 / 100 :: real) \<le> 3 / 100 \<and> (2 / 10 :: real) \<ge> 2 / 10 \<and>
        ((1 / 100 :: real) = 3 / 100 \<or> (2 / 10 :: real) = 2 / 10 \<or>
         fmul \<bar>fsub (2 / 10) (2 / 10)\<bar> 100 = 5) \<longrightarrow>
        \<not> adjusted \<and> restraints_weight_scale w' = 1"
    by blast
  from none have first: "\<not> adjusted" "restraints_weight_scale w' = 1"
    by simp_all
  from adjust_outcomes [OF active rmsd' factor rw' rf' refl s, of "3 / 100"]
  obtain adjusted' w'' where
    res': "adjust_restraints_weight_scale w_free fm_gap grm0 (3 / 100) 2 =
             Inr (Some adjusted', w'')"
    and loosen: "(1 / 100 :: real) < 3 / 100 \<and> 1 / 4 > fl (2 / 10) \<and>
        fmul \<bar>fsub (1 / 4) (fl (2 / 10))\<bar> 100 < 5 \<longrightarrow>
        adjusted' \<and> restraints_weight_scale w'' = fdiv 1 2"
    by blast
  from loosen have second: "adjusted'" "restraints_weight_scale w'' = 1 / 2"
    using gap_below_five r_work_below_r_free by (simp_all add: fdiv_def)
  have order: "r_work fm_gap (xray_structure fm_gap) < r_free fm_gap (xray_structure fm_gap)"
    using r_work_below_r_free by (simp add: fm_gap_def)
  have gap: "fmul \<bar>fsub (r_free fm_gap (xray_structure fm_gap))
                     (r_work fm_gap (xray_structure fm_gap))\<bar> 100 < 5"
    using gap_below_five by (simp add: fm_gap_def)
  from active rmsd res first res' second order gap show ?thesis
    by simp
qed

subsection \<open>The weight computed from the two gradients\<close>

lemma flex_sum_zeros: "flex_sum (replicate n 0) = 0"
  unfolding flex_sum_def by (induction n) (simp_all add: fadd_def)

lemma zero_gradient_filtered_norm:
  assumes "gc \<noteq> []" and "\<forall>v\<in>set gc. v = (0, 0, 0)"
  shows "filtered_norm gc = Inr 0"
proof -
  have rep: "gc = replicate (length gc) (0, 0, 0)"
    using assms(2) by (simp add: replicate_length_same)
  have dot: "flex_dot gc = replicate (length gc) 0"
    by (subst rep) (simp add: flex_dot_def fadd_def fmul_def)
  have d: "flex_sqrt (flex_dot gc) = replicate (length gc) 0"
    by (simp add: dot flex_sqrt_def fsqrt_def)
  have m: "flex_mean (replicate (length gc) 0) = Inr 0"
    using assms(1) by (simp add: flex_mean_def flex_sum_zeros fdiv_def)
  have sel: "outlier_sel gc = Inr (replicate (length gc) False)"
    by (simp add: outlier_sel_def d m flex_gt_def fmul_def)
  have "flex_select gc (flex_not (replicate (length gc) False)) = gc"
    by (simp add: flex_select_def flex_not_def zip_replicate2 filter_map o_def)
  moreover have "flex_norm gc = 0"
    by (simp add: flex_norm_def dot flex_sum_zeros fsqrt_def)
  ultimately show ?thesis
    by (simp add: filtered_norm_def sel)
qed

lemma filtered_norm_defined: "g \<noteq> [] \<Longrightarrow> \<exists>y. filtered_norm g = Inr y"
  by (simp add: filtered_norm_def outlier_sel_def flex_mean_def flex_sqrt_def flex_dot_def Let_def)

lemma filtered_norm_unit: "filtered_norm [(1, 0, 0)] = Inr 1"
  by (simp add: filtered_norm_def outlier_sel_def flex_sqrt_def flex_dot_def flex_mean_def
      flex_sum_def flex_gt_def flex_not_def flex_select_def flex_norm_def
      fadd_def fmul_def fdiv_def fsqrt_def)

lemma filtered_norm_zero: "filtered_norm [(0, 0, 0)] = Inr 0"
  by (simp add: filtered_norm_def outlier_sel_def flex_sqrt_def flex_dot_def flex_mean_def
      flex_sum_def flex_gt_def flex_not_def flex_select_def flex_norm_def
      fadd_def fmul_def fdiv_def fsqrt_def)

text \<open>
  C2 as it is stated fails. One atom, a restraints manager whose gradient is zero
  everywhere and a data gradient of length one: \<^verbatim>\<open>compute_weight\<close> divides 0 by 1 and
  stores the data weight 0, not 1.
\<close>

theorem zero_restraints_gradient_counterexample:
  "\<not> weight_was_provided w_free \<and>
   rm_target_and_gradients rm0 [(2 / 10, 0, 0)] = Inr (0, [(0, 0, 0)]) \<and>
   compute_weight w_free fm0 rm0 g0 =
     Inr (w_free\<lparr>data_weight := Some 0\<rparr>, \<lparr>py_random = 1, flex_random = 2\<rparr>)"
  by (simp add: compute_weight_def w_free_def weights_init_def fm0_def xrs0_def rm0_def g0_def
      filtered_norm_unit filtered_norm_zero fdiv_def)

text \<open>
  C2, amended. With \<^verbatim>\<open>weight_was_provided\<close> false, a structure of at least one atom and
  a restraints gradient that is zero at the perturbed sites, \<^verbatim>\<open>compute_weight\<close> raises
  nothing; it sets the data weight to 1 when the filtered norm \<open>y\<close> of the data gradient
  is zero, and to 0 (that is \<open>0 / y\<close>) otherwise.
\<close>

theorem zero_restraints_gradient_weight:
  assumes "\<not> weight_was_provided self"
    and "sc = (if shake_sites self
               then snd (shake_sites_in_place (xray_structure fm) 1 (2 / 10)
                          (sites_cart (xray_structure fm)))
               else sites_cart (xray_structure fm))"
    and "target_functor fm ((xray_structure fm)\<lparr>sites_cart := sc\<rparr>) = Inr (tgx, packed)"
    and "vec3_double packed = Inr gx" and "gx \<noteq> []"
    and "rm_target_and_gradients rm sc = Inr (tc, gc)"
    and "gc \<noteq> []" and "\<forall>v\<in>set gc. v = (0, 0, 0)"
  shows "\<exists>y g'. filtered_norm gx = Inr y \<and>
           compute_weight self fm rm g =
             Inr (self\<lparr>data_weight := Some (if y \<noteq> 0 then 0 else 1)\<rparr>, g')"
proof -
  obtain y where y: "filtered_norm gx = Inr y"
    using filtered_norm_defined [OF assms(5)] by blast
  have x: "filtered_norm gc = Inr 0"
    using assms(7,8) by (rule zero_gradient_filtered_norm)
  have "\<exists>g'. compute_weight self fm rm g =
          Inr (self\<lparr>data_weight := Some (if y \<noteq> 0 then 0 else 1)\<rparr>, g')"
  proof (cases "shake_sites self")
    case True
    with assms(1,2,3,4,6) y x show ?thesis
      by (simp add: compute_weight_def Let_def split_beta fdiv_def)
  next
    case False
    with assms(1,2,3,4,6) y x show ?thesis
      by (simp add: compute_weight_def Let_def split_beta fdiv_def)
  qed
  with y show ?thesis
    by blast
qed

theorem zero_restraints_gradient_weight_witness:
  "\<not> weight_was_provided w_free \<and>
   target_functor fm0 ((xray_structure fm0)\<lparr>sites_cart := [(2 / 10, 0, 0)]\<rparr>)
     = Inr (3, [1, 0, 0]) \<and>
   rm_target_and_gradients rm0 [(2 / 10, 0, 0)] = Inr (0, [(0, 0, 0)]) \<and>
   filtered_norm [(1, 0, 0)] = Inr 1 \<and>
   (\<exists>g'. compute_weight w_free fm0 rm0 g0 = Inr (w_free\<lparr>data_weight := Some 0\<rparr>, g'))"
proof -
  have active: "\<not> weight_was_provided w_free"
    by (simp add: w_free_def weights_init_def)
  have sc: "[(2 / 10, 0, 0)] =
      (if shake_sites w_free
       then snd (shake_sites_in_place (xray_structure fm0) 1 (2 / 10)
                  (sites_cart (xray_structure fm0)))
       else sites_cart (xray_structure fm0))"
    by (simp add: w_free_def weights_init_def fm0_def xrs0_def)
  have tf: "target_functor fm0 ((xray_structure fm0)\<lparr>sites_cart := [(2 / 10, 0, 0)]\<rparr>)
      = Inr (3, [1, 0, 0])"
    by (simp add: fm0_def)
  have gx: "vec3_double [1, 0, 0] = Inr [(1, 0, 0)]" "[(1::real, 0::real, 0::real)] \<noteq> []"
    by simp_all
  have rm: "rm_target_and_gradients rm0 [(2 / 10, 0, 0)] = Inr (0, [(0, 0, 0)])"
    by (simp add: rm0_def)
  have gc: "[(0::real, 0::real, 0::real)] \<noteq> []"
    "\<forall>v\<in>set [(0::real, 0::real, 0::real)]. v = (0, 0, 0)"
    by simp_all
  from zero_restraints_gradient_weight [OF active sc tf gx rm gc, of g0]
  obtain y g' where "filtered_norm [(1, 0, 0)] = Inr y"
    and "compute_weight w_free fm0 rm0 g0 =
           Inr (w_free\<lparr>data_weight := Some (if y \<noteq> 0 then 0 else 1)\<rparr>, g')"
    by blast
  then have "compute_weight w_free fm0 rm0 g0 = Inr (w_free\<lparr>data_weight := Some 0\<rparr>, g')"
    by (simp add: filtered_norm_unit)
  with active tf rm show ?thesis
    by (auto simp: filtered_norm_unit)
qed

lemma rng_seeded:
  "(g :: rng)\<lparr>py_random := a, flex_random := b\<rparr> = \<lparr>py_random = a, flex_random = b\<rparr>"
  by (cases g) simp

text \<open>
  C6. The data weight that \<^verbatim>\<open>compute_weight\<close> leaves (or the exception it raises) is the
  same from every state of the random generators, because both are seeded with 1 before
  the shake; and a second call on the same model and restraints manager, made on the
  object and the generators that the first call left, returns that same object again.
\<close>

theorem compute_weight_deterministic:
  "map_sum id (\<lambda>(w', g'). data_weight w') (compute_weight self fm rm g) =
   map_sum id (\<lambda>(w', g'). data_weight w') (compute_weight self fm rm g') \<and>
   (\<forall>w1 g1. compute_weight self fm rm g = Inr (w1, g1) \<longrightarrow>
      (\<exists>g2. compute_weight w1 fm rm g1 = Inr (w1, g2)))"
proof (cases "weight_was_provided self")
  case True
  then show ?thesis
    by (simp add: compute_weight_def)
next
  case False
  have same: "compute_weight self fm rm g = compute_weight self fm rm g'"
    using False by (simp add: compute_weight_def Let_def rng_seeded)
  have again: "\<exists>g2. compute_weight w1 fm rm g1 = Inr (w1, g2)"
    if "compute_weight self fm rm g = Inr (w1, g1)" for w1 g1
    using that False
    by (auto simp: compute_weight_def Let_def split_beta bind_err_def rng_seeded
        split: sum.splits if_splits)
  from same again show ?thesis
    by simp
qed

lemma filtered_norm_rm1: "filtered_norm [(0, 2, 0)] = Inr 2"
  by (simp add: filtered_norm_def outlier_sel_def flex_sqrt_def flex_dot_def flex_mean_def
      flex_sum_def flex_gt_def flex_not_def flex_select_def flex_norm_def
      fadd_def fmul_def fdiv_def fsqrt_def)

lemma compute_weight_w_free_rm1:
  "compute_weight w_free fm0 rm1 g0 =
     Inr (w_free\<lparr>data_weight := Some 2\<rparr>, \<lparr>py_random = 1, flex_random = 2\<rparr>)"
  by (simp add: compute_weight_def w_free_def weights_init_def fm0_def xrs0_def rm1_def g0_def
      filtered_norm_unit filtered_norm_rm1 fdiv_def)

theorem compute_weight_deterministic_witness:
  "compute_weight w_free fm0 rm1 g0 =
     Inr (w_free\<lparr>data_weight := Some 2\<rparr>, \<lparr>py_random = 1, flex_random = 2\<rparr>) \<and>
   (\<exists>g2. compute_weight (w_free\<lparr>data_weight := Some 2\<rparr>) fm0 rm1
            \<lparr>py_random = 1, flex_random = 2\<rparr> = Inr (w_free\<lparr>data_weight := Some 2\<rparr>, g2))"
  using compute_weight_deterministic [of w_free fm0 rm1 g0 g0] compute_weight_w_free_rm1
  by blast

subsection \<open>The outlier mask\<close>
























































end
